theory Spec2Isabelle
  imports Complex_Main "HOL-Library.Sublist"
begin

section \<open>The employee service of server.js\<close>

text \<open>
  The service is one file, \<^verbatim>\<open>server.js\<close>: a start-up routine \<^verbatim>\<open>connectToMongo\<close>
  and five route handlers that share the variable \<^verbatim>\<open>db\<close>. The document store is not
  part of the repository. It is modelled as two things: the contents of its named
  collections, and, for every call the code makes, an outcome chosen by the
  environment (the call returns, returns unacknowledged, or throws). Every handler
  takes the state and returns the state after it together with the HTTP response.
  A handler runs here as one step: requests are taken one after the other.
\<close>

subsection \<open>JavaScript values\<close>

text \<open>
  The values a parsed JSON body can hold, the \<^verbatim>\<open>undefined\<close> of an absent property,
  and the two values the code or the store's client makes: a date and an identity.
  A number is kept as a rational; its only use here is the test against zero.
\<close>

datatype jsval =
    JUndefined
  | JNull
  | JBool bool
  | JNum rat
  | JString string
  | JArray "jsval list"
  | JObject "(string \<times> jsval) list"
  | JDate nat
  | JObjectId nat

text \<open>What \<^verbatim>\<open>!v\<close> and \<^verbatim>\<open>v || w\<close> test: every value is truthy but \<^verbatim>\<open>undefined\<close>,
  \<^verbatim>\<open>null\<close>, \<^verbatim>\<open>false\<close>, zero and the empty string.\<close>

fun truthy :: "jsval \<Rightarrow> bool" where
  "truthy JUndefined = False"
| "truthy JNull = False"
| "truthy (JBool b) = b"
| "truthy (JNum n) = (n \<noteq> 0)"
| "truthy (JString s) = (s \<noteq> [])"
| "truthy (JArray xs) = True"
| "truthy (JObject ps) = True"
| "truthy (JDate t) = True"
| "truthy (JObjectId i) = True"

text \<open>A document, and the literal of an object, is the list of its properties in order.\<close>

type_synonym doc = "(string \<times> jsval) list"

text \<open>\<^verbatim>\<open>req.body\<close> after \<^verbatim>\<open>express.json()\<close>: the properties of the parsed object.
  Reading a property that is absent gives \<^verbatim>\<open>undefined\<close>.\<close>

type_synonym body = "string \<rightharpoonup> jsval"

definition get_prop :: "body \<Rightarrow> string \<Rightarrow> jsval" where
  "get_prop b k = (case b k of None \<Rightarrow> JUndefined | Some v \<Rightarrow> v)"

subsection \<open>Query values\<close>

text \<open>\<^verbatim>\<open>req.query.name\<close> is a string, or, when the parameter is repeated or
  bracketed, an array or an object of such values.\<close>

datatype qval =
    QStr string
  | QArr "qval list"
  | QObj "(string \<times> qval) list"

fun qtruthy :: "qval \<Rightarrow> bool" where
  "qtruthy (QStr s) = (s \<noteq> [])"
| "qtruthy (QArr xs) = True"
| "qtruthy (QObj ps) = True"

fun join :: "string list \<Rightarrow> string" where
  "join [] = []"
| "join [x] = x"
| "join (x # y # ys) = x @ '','' @ join (y # ys)"

text \<open>The conversion a template literal applies to \<^verbatim>\<open>${name}\<close>.\<close>

fun to_str :: "qval \<Rightarrow> string" where
  "to_str (QStr s) = s"
| "to_str (QArr xs) = join (map to_str xs)"
| "to_str (QObj ps) = ''[object Object]''"

subsection \<open>Constants of the file\<close>

definition dbName :: string where
  "dbName = ''voiceowl''"

definition employeesCollectionName :: string where
  "employeesCollectionName = ''employees''"

definition companyListCollectionName :: string where
  "companyListCollectionName = ''company_list''"

subsection \<open>State\<close>

text \<open>
  \<open>db\<close> is the variable \<^verbatim>\<open>let db\<close>: unset until \<^verbatim>\<open>connectToMongo\<close> assigns the handle.
  \<open>colls\<close> is the contents of the store's collections by name and \<open>next_id\<close> the
  source of fresh identities. The store outlives the process, so its contents are
  part of the state also when the process has exited.
\<close>

record state =
  db :: "string option"
  colls :: "string \<Rightarrow> doc list"
  next_id :: nat

datatype payload = Text string | Json jsval

record response =
  status :: nat
  payload :: payload

subsection \<open>The store's client\<close>

text \<open>
  How one insert call ends. \<open>Acked\<close>: the store kept every document and the result
  has \<^verbatim>\<open>acknowledged: true\<close>. \<open>Unacked k\<close>: the call returns a result with
  \<^verbatim>\<open>acknowledged: false\<close>. \<open>Threw k\<close>: the call throws. In the last two the store
  kept the first \<open>k\<close> documents of the call (none when \<open>k = 0\<close>).
\<close>

datatype outcome = Acked | Unacked nat | Threw nat

fun kept :: "outcome \<Rightarrow> nat \<Rightarrow> nat" where
  "kept Acked n = n"
| "kept (Unacked k) n = min k n"
| "kept (Threw k) n = min k n"

text \<open>The result object of an insert: \<^verbatim>\<open>acknowledged\<close> and the identities given.\<close>

record insert_result =
  acknowledged :: bool
  insertedIds :: "nat list"

fun reply :: "outcome \<Rightarrow> nat list \<Rightarrow> insert_result option" where
  "reply Acked ids = Some \<lparr>acknowledged = True, insertedIds = ids\<rparr>"
| "reply (Unacked k) ids = Some \<lparr>acknowledged = False, insertedIds = ids\<rparr>"
| "reply (Threw k) ids = None"

definition with_id :: "nat \<Rightarrow> doc \<Rightarrow> doc" where
  "with_id i d = (''_id'', JObjectId i) # d"

text \<open>\<^verbatim>\<open>collection(c).insertMany(ds)\<close>: every document gets a fresh identity, the
  store appends the documents it keeps, and the call returns or throws (\<open>None\<close>).\<close>

definition insertMany :: "outcome \<Rightarrow> string \<Rightarrow> doc list \<Rightarrow> state \<Rightarrow> state \<times> insert_result option" where
  "insertMany oc c ds s =
     (let ids = [next_id s ..< next_id s + length ds];
          stored = take (kept oc (length ds)) (map2 with_id ids ds)
      in (s\<lparr>colls := (colls s)(c := colls s c @ stored), next_id := next_id s + length ds\<rparr>,
          reply oc ids))"

definition insertOne :: "outcome \<Rightarrow> string \<Rightarrow> doc \<Rightarrow> state \<Rightarrow> state \<times> insert_result option" where
  "insertOne oc c d s = insertMany oc c [d] s"

definition insertedId :: "insert_result \<Rightarrow> jsval" where
  "insertedId r = (case insertedIds r of [] \<Rightarrow> JUndefined | i # _ \<Rightarrow> JObjectId i)"

subsection \<open>Start-up\<close>

text \<open>What the environment decides during \<^verbatim>\<open>connectToMongo\<close>: whether
  \<^verbatim>\<open>client.connect()\<close> and \<^verbatim>\<open>countDocuments()\<close> throw, how the two
  \<^verbatim>\<open>insertMany\<close> calls end, and the two readings of the clock.\<close>

record start_env =
  connect_throws :: bool
  count_throws :: bool
  seed_employees :: outcome
  seed_company :: outcome
  seed_now1 :: nat
  seed_now2 :: nat

definition seedEmployees :: "doc list" where
  "seedEmployees =
     [[(''name'', JString ''Charlie Brown''), (''email'', JString ''charlie.b@voiceowl.com''),
       (''department'', JString ''HR'')],
      [(''name'', JString ''Diana Prince''), (''email'', JString ''diana.p@voiceowl.com''),
       (''department'', JString ''Sales'')]]"

definition seedCompanyList :: "nat \<Rightarrow> nat \<Rightarrow> doc list" where
  "seedCompanyList t1 t2 =
     [[(''name'', JString ''Charlie Brown''), (''addedAt'', JDate t1)],
      [(''name'', JString ''Diana Prince''), (''addedAt'', JDate t2)]]"

text \<open>
  \<^verbatim>\<open>connectToMongo\<close>. The whole body is inside one \<^verbatim>\<open>try\<close>; its \<^verbatim>\<open>catch\<close> calls
  \<^verbatim>\<open>process.exit(1)\<close>. The result is the state and the exit code, \<open>None\<close> while
  the process keeps running.
\<close>

definition connectToMongo :: "start_env \<Rightarrow> state \<Rightarrow> state \<times> nat option" where
  "connectToMongo e s =
     (if connect_throws e then (s, Some 1)
      else
        let s1 = s\<lparr>db := Some dbName\<rparr> in
        if count_throws e then (s1, Some 1)
        else
          let count = length (colls s1 employeesCollectionName) in
          if count = 0 then
            (case insertMany (seed_employees e) employeesCollectionName seedEmployees s1 of
               (s2, None) \<Rightarrow> (s2, Some 1)
             | (s2, Some r1) \<Rightarrow>
                 (case insertMany (seed_company e) companyListCollectionName
                         (seedCompanyList (seed_now1 e) (seed_now2 e)) s2 of
                    (s3, None) \<Rightarrow> (s3, Some 1)
                  | (s3, Some r2) \<Rightarrow> (s3, None)))
          else (s1, None))"

subsection \<open>Requests\<close>

text \<open>What the environment decides during one request: the two readings of the
  clock and the ends of the two inserts of \<^verbatim>\<open>POST /employees\<close>, and whether the
  \<^verbatim>\<open>find({}).toArray()\<close> of a listing throws.\<close>

record env =
  now1 :: nat
  now2 :: nat
  insert1 :: outcome
  insert2 :: outcome
  find_throws :: bool

definition json_error :: "nat \<Rightarrow> string \<Rightarrow> response" where
  "json_error code msg = \<lparr>status = code, payload = Json (JObject [(''error'', JString msg)])\<rparr>"

text \<open>\<^verbatim>\<open>app.get('/health')\<close>\<close>

definition health :: "state \<Rightarrow> state \<times> response" where
  "health s =
     (if db s \<noteq> None then (s, \<lparr>status = 200, payload = Text ''OK (MongoDB Connected)''\<rparr>)
      else (s, \<lparr>status = 503, payload = Text ''Service Unavailable: MongoDB not connected''\<rparr>))"

text \<open>\<^verbatim>\<open>app.get('/greet')\<close>; the argument is \<^verbatim>\<open>req.query.name\<close>, \<open>None\<close> when the
  query has no such parameter.\<close>

definition greet :: "qval option \<Rightarrow> state \<Rightarrow> state \<times> response" where
  "greet q s =
     (let name = (case q of None \<Rightarrow> QStr ''World''
                  | Some v \<Rightarrow> if qtruthy v then v else QStr ''World'')
      in (s, \<lparr>status = 200,
              payload = Json (JObject [(''message'', JString (''Hello, '' @ to_str name @ ''!''))])\<rparr>))"

text \<open>\<^verbatim>\<open>app.post('/employees')\<close>\<close>

definition newEmployee :: "env \<Rightarrow> body \<Rightarrow> doc" where
  "newEmployee e b =
     [(''name'', get_prop b ''name''), (''email'', get_prop b ''email''),
      (''department'', get_prop b ''department''), (''addedDate'', JDate (now1 e))]"

definition companyListEntry :: "env \<Rightarrow> body \<Rightarrow> doc" where
  "companyListEntry e b = [(''name'', get_prop b ''name''), (''addedAt'', JDate (now2 e))]"

definition created :: "insert_result \<Rightarrow> env \<Rightarrow> body \<Rightarrow> response" where
  "created r e b =
     \<lparr>status = 201,
      payload = Json (JObject
        [(''message'', JString ''Employee added successfully and synced to company list.''),
         (''employee'', JObject ((''_id'', insertedId r) # newEmployee e b))])\<rparr>"

definition post_employees :: "env \<Rightarrow> body \<Rightarrow> state \<Rightarrow> state \<times> response" where
  "post_employees e b s =
     (if db s = None then (s, json_error 503 ''Database not connected'')
      else if \<not> truthy (get_prop b ''name'') \<or> \<not> truthy (get_prop b ''email'')
      then (s, json_error 400 ''Name and email are required.'')
      else
        (case insertOne (insert1 e) employeesCollectionName (newEmployee e b) s of
           (s1, None) \<Rightarrow> (s1, json_error 500 ''Failed to add employee due to server error.'')
         | (s1, Some result) \<Rightarrow>
             if acknowledged result then
               (case insertOne (insert2 e) companyListCollectionName (companyListEntry e b) s1 of
                  (s2, None) \<Rightarrow> (s2, json_error 500 ''Failed to add employee due to server error.'')
                | (s2, Some r2) \<Rightarrow> (s2, created result e b))
             else (s1, json_error 500 ''Failed to add employee.'')))"

text \<open>\<^verbatim>\<open>app.get('/employees')\<close> and \<^verbatim>\<open>app.get('/company-list')\<close>\<close>

text \<open>\<^verbatim>\<open>find({}).toArray()\<close> gives the documents of a collection as the store holds
  them. \<open>colls\<close> keeps each document as it was handed to the insert; the store's client
  writes a property whose value is \<^verbatim>\<open>undefined\<close> as \<^verbatim>\<open>null\<close>, and so it is read back.\<close>

definition as_stored :: "doc \<Rightarrow> doc" where
  "as_stored d = map (\<lambda>(k, v). (k, if v = JUndefined then JNull else v)) d"

definition find_all :: "state \<Rightarrow> string \<Rightarrow> doc list" where
  "find_all s c = map as_stored (colls s c)"

definition listing :: "state \<Rightarrow> string \<Rightarrow> response" where
  "listing s c = \<lparr>status = 200, payload = Json (JArray (map JObject (find_all s c)))\<rparr>"

definition get_employees :: "env \<Rightarrow> state \<Rightarrow> state \<times> response" where
  "get_employees e s =
     (if db s = None then (s, json_error 503 ''Database not connected'')
      else if find_throws e then (s, json_error 500 ''Failed to retrieve employee data'')
      else (s, listing s employeesCollectionName))"

definition get_company_list :: "env \<Rightarrow> state \<Rightarrow> state \<times> response" where
  "get_company_list e s =
     (if db s = None then (s, json_error 503 ''Database not connected'')
      else if find_throws e then (s, json_error 500 ''Failed to retrieve company list data'')
      else (s, listing s companyListCollectionName))"

text \<open>The five routes.\<close>

datatype request =
    GetHealth
  | GetGreet "qval option"
  | PostEmployees body
  | GetEmployees
  | GetCompanyList

fun handle :: "env \<Rightarrow> request \<Rightarrow> state \<Rightarrow> state \<times> response" where
  "handle e GetHealth s = health s"
| "handle e (GetGreet q) s = greet q s"
| "handle e (PostEmployees b) s = post_employees e b s"
| "handle e GetEmployees s = get_employees e s"
| "handle e GetCompanyList s = get_company_list e s"

text \<open>A run of requests, each with what the environment decides for it.\<close>

type_synonym event = "env \<times> request"

fun run :: "state \<Rightarrow> event list \<Rightarrow> state" where
  "run s [] = s"
| "run s ((e, r) # evs) = run (fst (handle e r s)) evs"

subsection \<open>What the requests of a run are to leave in the store\<close>





subsection \<open>Concrete inputs\<close>

text \<open>The state when the process starts, \<^verbatim>\<open>let db\<close> still unset, over a store with the
  given contents; a store with no documents; a JSON object read into a body (of two
  properties with one name the later one counts).\<close>

definition process_start :: "(string \<Rightarrow> doc list) \<Rightarrow> nat \<Rightarrow> state" where
  "process_start cs n = \<lparr>db = None, colls = cs, next_id = n\<rparr>"

definition no_docs :: "string \<Rightarrow> doc list" where
  "no_docs c = []"

definition parse_body :: "(string \<times> jsval) list \<Rightarrow> body" where
  "parse_body ps = map_of (rev ps)"

definition has_field :: "string \<Rightarrow> doc \<Rightarrow> bool" where
  "has_field k d = (map_of d k \<noteq> None)"

fun threw :: "outcome \<Rightarrow> bool" where
  "threw (Threw k) = True"
| "threw Acked = False"
| "threw (Unacked k) = False"

section \<open>Properties\<close>

subsection \<open>Adding an employee\<close>

text \<open>
  C1. A \<^verbatim>\<open>POST /employees\<close> whose name and email pass the handler's test, made while
  \<^verbatim>\<open>db\<close> is set and with both inserts acknowledged, appends the full record
  (name, email, department, addedDate) to the collection \<^verbatim>\<open>employees\<close>, then an entry
  with the same name and no email or department to \<^verbatim>\<open>company_list\<close>, and answers 201
  with the record and the identity the first insert gave it.
\<close>

theorem post_employees_created:
  assumes "db s \<noteq> None"
    and "truthy (get_prop b ''name'')" and "truthy (get_prop b ''email'')"
    and "insert1 e = Acked" and "insert2 e = Acked"
  shows "handle e (PostEmployees b) s =
     (s\<lparr>colls := (colls s)
           (employeesCollectionName :=
              colls s employeesCollectionName @ [with_id (next_id s) (newEmployee e b)],
            companyListCollectionName :=
              colls s companyListCollectionName @ [with_id (next_id s + 1) (companyListEntry e b)]),
         next_id := next_id s + 2\<rparr>,
      \<lparr>status = 201,
       payload = Json (JObject
         [(''message'', JString ''Employee added successfully and synced to company list.''),
          (''employee'', JObject (with_id (next_id s) (newEmployee e b)))])\<rparr>)
   \<and> map_of (companyListEntry e b) ''name'' = map_of (newEmployee e b) ''name''
   \<and> map_of (newEmployee e b) ''name'' = Some (get_prop b ''name'')
   \<and> map_of (newEmployee e b) ''email'' = Some (get_prop b ''email'')
   \<and> map_of (newEmployee e b) ''department'' = Some (get_prop b ''department'')
   \<and> has_field ''addedDate'' (newEmployee e b)
   \<and> \<not> has_field ''email'' (companyListEntry e b)
   \<and> \<not> has_field ''department'' (companyListEntry e b)"
  using assms
  by (auto simp add: post_employees_def insertOne_def insertMany_def created_def insertedId_def
      with_id_def employeesCollectionName_def companyListCollectionName_def Let_def
      newEmployee_def companyListEntry_def has_field_def)

theorem post_employees_created_witness:
  "db ((process_start no_docs 7)\<lparr>db := Some dbName\<rparr>) \<noteq> None
   \<and> truthy (get_prop (parse_body [(''name'', JString ''Ann''), (''email'', JString ''ann@x.org'')]) ''name'')
   \<and> truthy (get_prop (parse_body [(''name'', JString ''Ann''), (''email'', JString ''ann@x.org'')]) ''email'')
   \<and> insert1 \<lparr>now1 = 10, now2 = 11, insert1 = Acked, insert2 = Acked, find_throws = False\<rparr> = Acked
   \<and> insert2 \<lparr>now1 = 10, now2 = 11, insert1 = Acked, insert2 = Acked, find_throws = False\<rparr> = Acked
   \<and> snd (handle \<lparr>now1 = 10, now2 = 11, insert1 = Acked, insert2 = Acked, find_throws = False\<rparr>
        (PostEmployees (parse_body [(''name'', JString ''Ann''), (''email'', JString ''ann@x.org'')]))
        ((process_start no_docs 7)\<lparr>db := Some dbName\<rparr>)) =
      \<lparr>status = 201,
       payload = Json (JObject
         [(''message'', JString ''Employee added successfully and synced to company list.''),
          (''employee'', JObject [(''_id'', JObjectId 7), (''name'', JString ''Ann''),
             (''email'', JString ''ann@x.org''), (''department'', JUndefined),
             (''addedDate'', JDate 10)])])\<rparr>
   \<and> colls (fst (handle \<lparr>now1 = 10, now2 = 11, insert1 = Acked, insert2 = Acked, find_throws = False\<rparr>
        (PostEmployees (parse_body [(''name'', JString ''Ann''), (''email'', JString ''ann@x.org'')]))
        ((process_start no_docs 7)\<lparr>db := Some dbName\<rparr>))) ''employees'' =
      [[(''_id'', JObjectId 7), (''name'', JString ''Ann''),
             (''email'', JString ''ann@x.org''), (''department'', JUndefined),
             (''addedDate'', JDate 10)]]
   \<and> colls (fst (handle \<lparr>now1 = 10, now2 = 11, insert1 = Acked, insert2 = Acked, find_throws = False\<rparr>
        (PostEmployees (parse_body [(''name'', JString ''Ann''), (''email'', JString ''ann@x.org'')]))
        ((process_start no_docs 7)\<lparr>db := Some dbName\<rparr>))) ''company_list'' =
      [[(''_id'', JObjectId 8), (''name'', JString ''Ann''), (''addedAt'', JDate 11)]]"
  using post_employees_created [of "(process_start no_docs 7)\<lparr>db := Some dbName\<rparr>"
      "parse_body [(''name'', JString ''Ann''), (''email'', JString ''ann@x.org'')]"
      "\<lparr>now1 = 10, now2 = 11, insert1 = Acked, insert2 = Acked, find_throws = False\<rparr>"]
  by (simp add: process_start_def no_docs_def parse_body_def get_prop_def newEmployee_def
      companyListEntry_def with_id_def employeesCollectionName_def companyListCollectionName_def)

text \<open>The values the handler's test \<^verbatim>\<open>!name || !email\<close> rejects.\<close>

lemma falsy_values:
  "(\<not> truthy v) = (v = JUndefined \<or> v = JNull \<or> v = JBool False \<or> v = JNum 0 \<or> v = JString [])"
  by (cases v) auto

text \<open>
  C4. A \<^verbatim>\<open>POST /employees\<close> whose body has no name or no email stores nothing: the state
  after it is the state before it. It is answered 400 when \<^verbatim>\<open>db\<close> is set; the test of
  \<^verbatim>\<open>db\<close> comes first in the handler, so while \<^verbatim>\<open>db\<close> is unset the answer is 503.
\<close>

theorem post_missing_field:
  assumes "b ''name'' = None \<or> b ''email'' = None"
  shows "fst (handle e (PostEmployees b) s) = s
     \<and> (db s \<noteq> None \<longrightarrow> snd (handle e (PostEmployees b) s) = json_error 400 ''Name and email are required.'')
     \<and> (db s = None \<longrightarrow> snd (handle e (PostEmployees b) s) = json_error 503 ''Database not connected'')"
  using assms by (auto simp add: post_employees_def get_prop_def)

theorem post_missing_field_witness:
  "(parse_body [(''email'', JString ''ann@x.org'')] ''name'' = None
      \<or> parse_body [(''email'', JString ''ann@x.org'')] ''email'' = None)
   \<and> db ((process_start no_docs 0)\<lparr>db := Some dbName\<rparr>) \<noteq> None
   \<and> handle \<lparr>now1 = 0, now2 = 0, insert1 = Acked, insert2 = Acked, find_throws = False\<rparr>
        (PostEmployees (parse_body [(''email'', JString ''ann@x.org'')]))
        ((process_start no_docs 0)\<lparr>db := Some dbName\<rparr>) =
      ((process_start no_docs 0)\<lparr>db := Some dbName\<rparr>,
       \<lparr>status = 400, payload = Json (JObject [(''error'', JString ''Name and email are required.'')])\<rparr>)"
  using post_missing_field [where b = "parse_body [(''email'', JString ''ann@x.org'')]"
      and e = "\<lparr>now1 = 0, now2 = 0, insert1 = Acked, insert2 = Acked, find_throws = False\<rparr>"
      and s = "(process_start no_docs 0)\<lparr>db := Some dbName\<rparr>"]
  by (simp add: parse_body_def process_start_def json_error_def prod_eq_iff)

text \<open>C4 as stated, 400 for every such request, fails before the connection is made.\<close>

theorem post_missing_field_counterexample:
  "parse_body [(''email'', JString ''ann@x.org'')] ''name'' = None
   \<and> status (snd (handle \<lparr>now1 = 0, now2 = 0, insert1 = Acked, insert2 = Acked, find_throws = False\<rparr>
        (PostEmployees (parse_body [(''email'', JString ''ann@x.org'')]))
        (process_start no_docs 0))) = 503"
  by (simp add: post_employees_def process_start_def parse_body_def json_error_def)

text \<open>
  C9. A \<^verbatim>\<open>POST /employees\<close> whose name or email is present with a falsy value (the empty
  string, \<^verbatim>\<open>null\<close>, \<^verbatim>\<open>false\<close>, zero) stores nothing, and is answered 400 when \<^verbatim>\<open>db\<close>
  is set and 503 while it is unset.
\<close>

theorem post_falsy_field:
  assumes "b ''name'' = Some v \<or> b ''email'' = Some v" and "\<not> truthy v"
  shows "fst (handle e (PostEmployees b) s) = s
     \<and> (db s \<noteq> None \<longrightarrow> snd (handle e (PostEmployees b) s) = json_error 400 ''Name and email are required.'')
     \<and> (db s = None \<longrightarrow> snd (handle e (PostEmployees b) s) = json_error 503 ''Database not connected'')"
  using assms by (auto simp add: post_employees_def get_prop_def)

theorem post_falsy_field_witness:
  "(parse_body [(''name'', JString ''Ann''), (''email'', JNum 0)] ''name'' = Some (JNum 0)
      \<or> parse_body [(''name'', JString ''Ann''), (''email'', JNum 0)] ''email'' = Some (JNum 0))
   \<and> \<not> truthy (JNum 0)
   \<and> db ((process_start no_docs 0)\<lparr>db := Some dbName\<rparr>) \<noteq> None
   \<and> handle \<lparr>now1 = 0, now2 = 0, insert1 = Acked, insert2 = Acked, find_throws = False\<rparr>
        (PostEmployees (parse_body [(''name'', JString ''Ann''), (''email'', JNum 0)]))
        ((process_start no_docs 0)\<lparr>db := Some dbName\<rparr>) =
      ((process_start no_docs 0)\<lparr>db := Some dbName\<rparr>,
       \<lparr>status = 400, payload = Json (JObject [(''error'', JString ''Name and email are required.'')])\<rparr>)"
  using post_falsy_field [where b = "parse_body [(''name'', JString ''Ann''), (''email'', JNum 0)]"
      and v = "JNum 0"
      and e = "\<lparr>now1 = 0, now2 = 0, insert1 = Acked, insert2 = Acked, find_throws = False\<rparr>"
      and s = "(process_start no_docs 0)\<lparr>db := Some dbName\<rparr>"]
  by (simp add: parse_body_def process_start_def json_error_def prod_eq_iff)

text \<open>C9 as stated, 400 for every such request, fails before the connection is made.\<close>

theorem post_falsy_field_counterexample:
  "parse_body [(''name'', JString ''''), (''email'', JString ''ann@x.org'')] ''name'' = Some (JString '''')
   \<and> status (snd (handle \<lparr>now1 = 0, now2 = 0, insert1 = Acked, insert2 = Acked, find_throws = False\<rparr>
        (PostEmployees (parse_body [(''name'', JString ''''), (''email'', JString ''ann@x.org'')]))
        (process_start no_docs 0))) = 503"
  by (simp add: post_employees_def process_start_def parse_body_def json_error_def)

subsection \<open>Health and greeting\<close>

text \<open>
  C6. \<^verbatim>\<open>GET /health\<close> answers 200 when \<^verbatim>\<open>db\<close> is set and 503 when it is not. It makes
  no call to the store: the state is unchanged, and the answer is the same for every
  content of the store and every way the store's calls would end, so a handle that is
  set over a store whose calls all throw is still answered 200.
\<close>

theorem health_status:
  "fst (handle e GetHealth s) = s
   \<and> (db s \<noteq> None \<longrightarrow> status (snd (handle e GetHealth s)) = 200)
   \<and> (db s = None \<longrightarrow> status (snd (handle e GetHealth s)) = 503)
   \<and> (db s' = db s \<longrightarrow> snd (handle e' GetHealth s') = snd (handle e GetHealth s))"
  by (simp add: health_def)

theorem health_status_witness:
  "db ((process_start no_docs 0)\<lparr>db := Some dbName\<rparr>) \<noteq> None
   \<and> status (snd (handle \<lparr>now1 = 0, now2 = 0, insert1 = Threw 0, insert2 = Threw 0, find_throws = True\<rparr>
         GetHealth ((process_start no_docs 0)\<lparr>db := Some dbName\<rparr>))) = 200
   \<and> db (process_start no_docs 0) = None
   \<and> status (snd (handle \<lparr>now1 = 0, now2 = 0, insert1 = Acked, insert2 = Acked, find_throws = False\<rparr>
         GetHealth (process_start no_docs 0))) = 503"
  using health_status [where e = "\<lparr>now1 = 0, now2 = 0, insert1 = Threw 0, insert2 = Threw 0, find_throws = True\<rparr>"
      and s = "(process_start no_docs 0)\<lparr>db := Some dbName\<rparr>"
      and e' = "\<lparr>now1 = 0, now2 = 0, insert1 = Acked, insert2 = Acked, find_throws = False\<rparr>"
      and s' = "(process_start no_docs 5)\<lparr>db := Some dbName\<rparr>"]
    health_status [where e = "\<lparr>now1 = 0, now2 = 0, insert1 = Acked, insert2 = Acked, find_throws = False\<rparr>"
      and s = "process_start no_docs 0"
      and e' = "\<lparr>now1 = 0, now2 = 0, insert1 = Threw 0, insert2 = Threw 0, find_throws = True\<rparr>"
      and s' = "process_start no_docs 5"]
  by (simp add: process_start_def)

text \<open>
  C8. \<^verbatim>\<open>GET /greet\<close> without a name answers 200 with the message \<^verbatim>\<open>Hello, World!\<close>, with
  \<^verbatim>\<open>name=Ann\<close> 200 with \<^verbatim>\<open>Hello, Ann!\<close>, and with any non-empty name \<open>n\<close> 200 with
  \<^verbatim>\<open>Hello, n!\<close>.
\<close>

theorem greet_message:
  "handle e (GetGreet None) s =
     (s, \<lparr>status = 200, payload = Json (JObject [(''message'', JString ''Hello, World!'')])\<rparr>)
   \<and> handle e (GetGreet (Some (QStr ''Ann''))) s =
     (s, \<lparr>status = 200, payload = Json (JObject [(''message'', JString ''Hello, Ann!'')])\<rparr>)
   \<and> (n \<noteq> [] \<longrightarrow> handle e (GetGreet (Some (QStr n))) s =
     (s, \<lparr>status = 200, payload = Json (JObject [(''message'', JString (''Hello, '' @ n @ ''!''))])\<rparr>))"
  by (simp add: greet_def)

theorem greet_message_witness:
  "''Bob'' \<noteq> [] \<and> handle \<lparr>now1 = 0, now2 = 0, insert1 = Acked, insert2 = Acked, find_throws = False\<rparr>
      (GetGreet (Some (QStr ''Bob''))) (process_start no_docs 0) =
     (process_start no_docs 0,
      \<lparr>status = 200, payload = Json (JObject [(''message'', JString ''Hello, Bob!'')])\<rparr>)"
  using greet_message [of "\<lparr>now1 = 0, now2 = 0, insert1 = Acked, insert2 = Acked, find_throws = False\<rparr>" "process_start no_docs 0" "''Bob''"]
  by simp

subsection \<open>Listings\<close>

text \<open>
  C10. \<^verbatim>\<open>GET /employees\<close> and \<^verbatim>\<open>GET /company-list\<close> leave the state, and so both
  collections, as they were, whether they answer 200, 500 or 503; they give no other status.
\<close>

theorem listings_read_only:
  "fst (handle e GetEmployees s) = s \<and> fst (handle e GetCompanyList s) = s
   \<and> (status (snd (handle e GetEmployees s)) = 200 \<or> status (snd (handle e GetEmployees s)) = 500
        \<or> status (snd (handle e GetEmployees s)) = 503)
   \<and> (status (snd (handle e GetCompanyList s)) = 200 \<or> status (snd (handle e GetCompanyList s)) = 500
        \<or> status (snd (handle e GetCompanyList s)) = 503)"
  by (simp add: get_employees_def get_company_list_def listing_def json_error_def)

subsection \<open>Start-up\<close>

text \<open>
  C7. Starting against a store whose \<^verbatim>\<open>employees\<close> collection is empty, with the
  connection, the count and both seed inserts succeeding, leaves exactly the two seed
  employees in \<^verbatim>\<open>employees\<close>, and adds to \<^verbatim>\<open>company_list\<close> exactly two entries, whose
  names are those of the two employees, in order; they come after whatever
  \<^verbatim>\<open>company_list\<close> held, so when it was empty too they are all it holds. When
  \<^verbatim>\<open>employees\<close> is not empty at start-up, no collection changes.
\<close>

theorem startup_seeding:
  "(\<not> connect_throws e \<and> \<not> count_throws e \<and> seed_employees e = Acked \<and> seed_company e = Acked
      \<and> colls s employeesCollectionName = []
     \<longrightarrow> snd (connectToMongo e s) = None
       \<and> colls (fst (connectToMongo e s)) employeesCollectionName =
           [with_id (next_id s) (seedEmployees ! 0), with_id (next_id s + 1) (seedEmployees ! 1)]
       \<and> colls (fst (connectToMongo e s)) companyListCollectionName =
           colls s companyListCollectionName @
           [with_id (next_id s + 2) (seedCompanyList (seed_now1 e) (seed_now2 e) ! 0),
            with_id (next_id s + 3) (seedCompanyList (seed_now1 e) (seed_now2 e) ! 1)]
       \<and> map (\<lambda>d. map_of d ''name'')
             (drop (length (colls s companyListCollectionName))
               (colls (fst (connectToMongo e s)) companyListCollectionName)) =
           map (\<lambda>d. map_of d ''name'') (colls (fst (connectToMongo e s)) employeesCollectionName)
       \<and> map (\<lambda>d. map_of d ''name'') (colls (fst (connectToMongo e s)) employeesCollectionName) =
           [Some (JString ''Charlie Brown''), Some (JString ''Diana Prince'')]
       \<and> (colls s companyListCollectionName = [] \<longrightarrow>
            colls (fst (connectToMongo e s)) companyListCollectionName =
              [with_id (next_id s + 2) (seedCompanyList (seed_now1 e) (seed_now2 e) ! 0),
               with_id (next_id s + 3) (seedCompanyList (seed_now1 e) (seed_now2 e) ! 1)]))
   \<and> (colls s employeesCollectionName \<noteq> [] \<longrightarrow> colls (fst (connectToMongo e s)) = colls s)"
  by (simp add: connectToMongo_def insertMany_def seedEmployees_def seedCompanyList_def Let_def
      with_id_def employeesCollectionName_def companyListCollectionName_def upt_rec)

theorem startup_seeding_witness:
  "\<not> connect_throws \<lparr>connect_throws = False, count_throws = False, seed_employees = Acked,
        seed_company = Acked, seed_now1 = 3, seed_now2 = 4\<rparr>
   \<and> colls (process_start no_docs 0) employeesCollectionName = []
   \<and> colls (process_start no_docs 0) companyListCollectionName = []
   \<and> snd (connectToMongo \<lparr>connect_throws = False, count_throws = False, seed_employees = Acked,
        seed_company = Acked, seed_now1 = 3, seed_now2 = 4\<rparr> (process_start no_docs 0)) = None
   \<and> colls (fst (connectToMongo \<lparr>connect_throws = False, count_throws = False, seed_employees = Acked,
        seed_company = Acked, seed_now1 = 3, seed_now2 = 4\<rparr> (process_start no_docs 0))) ''employees'' =
      [[(''_id'', JObjectId 0), (''name'', JString ''Charlie Brown''),
        (''email'', JString ''charlie.b@voiceowl.com''), (''department'', JString ''HR'')],
       [(''_id'', JObjectId 1), (''name'', JString ''Diana Prince''),
        (''email'', JString ''diana.p@voiceowl.com''), (''department'', JString ''Sales'')]]
   \<and> colls (fst (connectToMongo \<lparr>connect_throws = False, count_throws = False, seed_employees = Acked,
        seed_company = Acked, seed_now1 = 3, seed_now2 = 4\<rparr> (process_start no_docs 0))) ''company_list'' =
      [[(''_id'', JObjectId 2), (''name'', JString ''Charlie Brown''), (''addedAt'', JDate 3)],
       [(''_id'', JObjectId 3), (''name'', JString ''Diana Prince''), (''addedAt'', JDate 4)]]
   \<and> colls (process_start (no_docs(''company_list'' := [[(''name'', JString ''Old'')]])) 0)
        employeesCollectionName = []
   \<and> colls (fst (connectToMongo \<lparr>connect_throws = False, count_throws = False, seed_employees = Acked,
        seed_company = Acked, seed_now1 = 3, seed_now2 = 4\<rparr>
        (process_start (no_docs(''company_list'' := [[(''name'', JString ''Old'')]])) 0))) ''company_list'' =
      [[(''name'', JString ''Old'')],
       [(''_id'', JObjectId 2), (''name'', JString ''Charlie Brown''), (''addedAt'', JDate 3)],
       [(''_id'', JObjectId 3), (''name'', JString ''Diana Prince''), (''addedAt'', JDate 4)]]
   \<and> colls (fst (connectToMongo \<lparr>connect_throws = False, count_throws = False, seed_employees = Acked,
        seed_company = Acked, seed_now1 = 3, seed_now2 = 4\<rparr> (process_start no_docs 0))) employeesCollectionName \<noteq> []
   \<and> colls (fst (connectToMongo \<lparr>connect_throws = False, count_throws = False, seed_employees = Acked,
        seed_company = Acked, seed_now1 = 8, seed_now2 = 9\<rparr>
          (fst (connectToMongo \<lparr>connect_throws = False, count_throws = False, seed_employees = Acked,
        seed_company = Acked, seed_now1 = 3, seed_now2 = 4\<rparr> (process_start no_docs 0))))) =
     colls (fst (connectToMongo \<lparr>connect_throws = False, count_throws = False, seed_employees = Acked,
        seed_company = Acked, seed_now1 = 3, seed_now2 = 4\<rparr> (process_start no_docs 0)))"
  using startup_seeding [where e = "\<lparr>connect_throws = False, count_throws = False, seed_employees = Acked,
        seed_company = Acked, seed_now1 = 3, seed_now2 = 4\<rparr>" and s = "process_start no_docs 0"]
    startup_seeding [where e = "\<lparr>connect_throws = False, count_throws = False, seed_employees = Acked,
        seed_company = Acked, seed_now1 = 3, seed_now2 = 4\<rparr>"
      and s = "process_start (no_docs(''company_list'' := [[(''name'', JString ''Old'')]])) 0"]
    startup_seeding [where e = "\<lparr>connect_throws = False, count_throws = False, seed_employees = Acked,
        seed_company = Acked, seed_now1 = 8, seed_now2 = 9\<rparr>"
      and s = "fst (connectToMongo \<lparr>connect_throws = False, count_throws = False, seed_employees = Acked,
        seed_company = Acked, seed_now1 = 3, seed_now2 = 4\<rparr> (process_start no_docs 0))"]
  by (simp add: process_start_def no_docs_def seedEmployees_def seedCompanyList_def with_id_def
      employeesCollectionName_def companyListCollectionName_def)

text \<open>
  C3. The claim is that every record of \<^verbatim>\<open>employees\<close> has an \<^verbatim>\<open>addedDate\<close>. The record
  the add-employee handler builds has one (see C1). The two records start-up seeds have
  none, although the two \<^verbatim>\<open>company_list\<close> entries seeded beside them get their
  \<^verbatim>\<open>addedAt\<close>: after a first start-up on an empty store,
\<close>

theorem seed_employees_lack_addedDate:
  "map (has_field ''addedDate'')
     (colls (fst (connectToMongo \<lparr>connect_throws = False, count_throws = False,
        seed_employees = Acked, seed_company = Acked, seed_now1 = 3, seed_now2 = 4\<rparr>
        (process_start no_docs 0))) employeesCollectionName) = [False, False]
   \<and> map (has_field ''addedAt'')
     (colls (fst (connectToMongo \<lparr>connect_throws = False, count_throws = False,
        seed_employees = Acked, seed_company = Acked, seed_now1 = 3, seed_now2 = 4\<rparr>
        (process_start no_docs 0))) companyListCollectionName) = [True, True]"
  by (simp add: connectToMongo_def insertMany_def seedEmployees_def seedCompanyList_def Let_def
      with_id_def employeesCollectionName_def companyListCollectionName_def upt_rec has_field_def
      process_start_def no_docs_def)

text \<open>
  C5. \<^verbatim>\<open>connectToMongo\<close> ends the process, with exit code 1, exactly when a call inside
  its \<^verbatim>\<open>try\<close> throws: the connection, the count, or, when \<^verbatim>\<open>employees\<close> is empty, one
  of the two seed inserts. When the seed insert into \<^verbatim>\<open>company_list\<close> throws after the
  seed employees were stored, the two employees stay in the store and the process ends.
\<close>

theorem startup_exit:
  "(snd (connectToMongo e s) \<noteq> None) =
     (connect_throws e \<or> count_throws e
      \<or> (colls s employeesCollectionName = []
          \<and> (threw (seed_employees e) \<or> threw (seed_company e))))
   \<and> (snd (connectToMongo e s) = None \<or> snd (connectToMongo e s) = Some 1)
   \<and> (\<not> connect_throws e \<and> \<not> count_throws e \<and> colls s employeesCollectionName = []
        \<and> seed_employees e = Acked \<and> threw (seed_company e) \<longrightarrow>
       snd (connectToMongo e s) = Some 1
       \<and> colls (fst (connectToMongo e s)) employeesCollectionName =
           [with_id (next_id s) (seedEmployees ! 0), with_id (next_id s + 1) (seedEmployees ! 1)])"
  by (cases "seed_employees e"; cases "seed_company e")
    (simp_all add: connectToMongo_def insertMany_def seedEmployees_def seedCompanyList_def Let_def
      with_id_def employeesCollectionName_def companyListCollectionName_def upt_rec)

theorem startup_exit_witness:
  "\<not> connect_throws \<lparr>connect_throws = False, count_throws = False,
        seed_employees = Acked, seed_company = Threw 0, seed_now1 = 3, seed_now2 = 4\<rparr>
   \<and> \<not> count_throws \<lparr>connect_throws = False, count_throws = False,
        seed_employees = Acked, seed_company = Threw 0, seed_now1 = 3, seed_now2 = 4\<rparr>
   \<and> colls (process_start no_docs 0) employeesCollectionName = []
   \<and> threw (Threw 0)
   \<and> snd (connectToMongo \<lparr>connect_throws = False, count_throws = False,
        seed_employees = Acked, seed_company = Threw 0, seed_now1 = 3, seed_now2 = 4\<rparr>
        (process_start no_docs 0)) = Some 1
   \<and> colls (fst (connectToMongo \<lparr>connect_throws = False, count_throws = False,
        seed_employees = Acked, seed_company = Threw 0, seed_now1 = 3, seed_now2 = 4\<rparr>
        (process_start no_docs 0))) employeesCollectionName =
      [[(''_id'', JObjectId 0), (''name'', JString ''Charlie Brown''),
        (''email'', JString ''charlie.b@voiceowl.com''), (''department'', JString ''HR'')],
       [(''_id'', JObjectId 1), (''name'', JString ''Diana Prince''),
        (''email'', JString ''diana.p@voiceowl.com''), (''department'', JString ''Sales'')]]
   \<and> snd (connectToMongo \<lparr>connect_throws = False, count_throws = False,
        seed_employees = Acked, seed_company = Acked, seed_now1 = 3, seed_now2 = 4\<rparr>
        (process_start no_docs 0)) = None"
  using startup_exit [where e = "\<lparr>connect_throws = False, count_throws = False,
        seed_employees = Acked, seed_company = Threw 0, seed_now1 = 3, seed_now2 = 4\<rparr>"
      and s = "process_start no_docs 0"]
    startup_exit [where e = "\<lparr>connect_throws = False, count_throws = False,
        seed_employees = Acked, seed_company = Acked, seed_now1 = 3, seed_now2 = 4\<rparr>"
      and s = "process_start no_docs 0"]
  by (simp add: process_start_def no_docs_def seedEmployees_def with_id_def)

text \<open>C5 as stated fails: the connection opens, the mirror insert of the seeding throws,
  and the process ends.\<close>

theorem startup_exit_counterexample:
  "\<not> connect_throws \<lparr>connect_throws = False, count_throws = False,
        seed_employees = Acked, seed_company = Threw 0, seed_now1 = 3, seed_now2 = 4\<rparr>
   \<and> snd (connectToMongo \<lparr>connect_throws = False, count_throws = False,
        seed_employees = Acked, seed_company = Threw 0, seed_now1 = 3, seed_now2 = 4\<rparr>
        (process_start no_docs 0)) = Some 1"
  by (simp add: connectToMongo_def insertMany_def seedEmployees_def seedCompanyList_def Let_def
      process_start_def no_docs_def employeesCollectionName_def companyListCollectionName_def)

text \<open>After a start-up that leaves the process running, \<^verbatim>\<open>db\<close> is set, so
  \<^verbatim>\<open>GET /health\<close> answers 200; before it, 503.\<close>

lemma startup_sets_db:
  "snd (connectToMongo se s) = None \<Longrightarrow> db (fst (connectToMongo se s)) = Some dbName"
  by (auto simp add: connectToMongo_def insertMany_def Let_def
      split: if_splits prod.splits option.splits)

lemma health_around_startup:
  "status (snd (handle e GetHealth (process_start cs n))) = 503
   \<and> (snd (connectToMongo se s) = None \<longrightarrow>
        status (snd (handle e GetHealth (fst (connectToMongo se s)))) = 200)"
  using startup_sets_db [of se s] by (simp add: health_def process_start_def)

subsection \<open>Runs of requests\<close>

text \<open>No handler unsets \<^verbatim>\<open>db\<close>, and no handler removes or changes a stored document:
  a collection after a request starts with what it held before.\<close>

lemma insertMany_db: "db (fst (insertMany oc c ds s)) = db s"
  by (simp add: insertMany_def Let_def)

lemma insertMany_grows: "prefix (colls s c') (colls (fst (insertMany oc c ds s)) c')"
  by (simp add: insertMany_def Let_def)


lemma handle_grows: "prefix (colls s c) (colls (fst (handle e r s)) c)"
proof (cases r)
  case (PostEmployees b)
  then show ?thesis
    by (auto simp add: post_employees_def insertOne_def insertMany_def Let_def
        split: prod.splits option.splits)
qed (simp_all add: health_def greet_def get_employees_def get_company_list_def)


lemma run_grows: "prefix (colls s c) (colls (run s evs) c)"
proof (induction s evs rule: run.induct)
  case (1 s)
  then show ?case by simp
next
  case (2 s e r evs)
  have "prefix (colls s c) (colls (fst (handle e r s)) c)"
    by (rule handle_grows)
  with 2 show ?case
    using prefix_order.order_trans by fastforce
qed







text \<open>Between the two inserts of a \<^verbatim>\<open>POST /employees\<close> the record is in \<^verbatim>\<open>employees\<close>
  and \<^verbatim>\<open>company_list\<close> is as before. The handlers are taken here one after the other, so
  what follows is about the store when no request is under way.\<close>

lemma between_the_inserts:
  "colls (fst (insertOne Acked employeesCollectionName (newEmployee e b) s)) employeesCollectionName =
     colls s employeesCollectionName @ [with_id (next_id s) (newEmployee e b)]
   \<and> colls (fst (insertOne Acked employeesCollectionName (newEmployee e b) s))
       companyListCollectionName = colls s companyListCollectionName"
  by (simp add: insertOne_def insertMany_def employeesCollectionName_def
      companyListCollectionName_def)





end
